theory Spec2Isabelle
  imports Main "HOL-Library.Sublist"
begin

section \<open>Python strings\<close>

text \<open>
  A Python \<open>str\<close> is a sequence of Unicode code points, so it is modelled as a list of
  natural numbers (an Isabelle \<open>char\<close> is a byte and could not hold U+1F618).
  \<open>lit\<close> turns an ASCII literal of the source into that representation.
\<close>

type_synonym str = "nat list"

definition lit :: "string \<Rightarrow> str" where
  "lit s = map of_char s"

text \<open>\<open>s.startswith(p)\<close> and \<open>s.endswith(p)\<close>.\<close>

definition startswith :: "str \<Rightarrow> str \<Rightarrow> bool" where
  "startswith s p = (take (length p) s = p)"

definition endswith :: "str \<Rightarrow> str \<Rightarrow> bool" where
  "endswith s p = (length p \<le> length s \<and> drop (length s - length p) s = p)"

text \<open>
  Python's slice \<open>s[start:stop]\<close> with integer bounds: a negative bound counts from the
  end, and both bounds are clamped to \<open>0 .. len(s)\<close>; an empty range gives the empty
  string, never an error.
\<close>

definition slice_index :: "nat \<Rightarrow> int \<Rightarrow> nat" where
  "slice_index n i = (if i < 0 then nat (max 0 (int n + i)) else min n (nat i))"

definition slice :: "'a list \<Rightarrow> int \<Rightarrow> int \<Rightarrow> 'a list" where
  "slice s start stop =
     (let lo = slice_index (length s) start; hi = slice_index (length s) stop
      in take (hi - lo) (drop lo s))"

section \<open>Exceptions\<close>

text \<open>
  The exceptions the modelled code raises or lets through. \<open>ErrorReturnCode n\<close> is the
  \<open>sh\<close> library's \<open>ErrorReturnCode_n\<close>, \<open>CalledProcessError n\<close> is the one
  \<open>subprocess.run(check=True)\<close> raises for exit status \<open>n\<close>; \<open>ValueError\<close> carries
  the description of the value it was raised with, \<open>TypeError\<close> its message.
\<close>

datatype exc =
    KeyboardInterrupt
  | ParseError
  | ErrorReturnCode int
  | CalledProcessError int
  | ValueError string
  | KeyError string
  | TypeError str
  | AttributeError
  | AssertionError
  | OtherError string

section \<open>Literal codepoint profiler (parse_worker.py)\<close>

subsection \<open>in_uplus_notation\<close>

text \<open>
  The digits of \<open>format(n, 'X')\<close>: uppercase hexadecimal, most significant digit first,
  no prefix, a single \<open>0\<close> for zero.
\<close>

definition hex_digit :: "nat \<Rightarrow> nat" where
  "hex_digit d = (if d < 10 then of_char CHR ''0'' + d else of_char CHR ''A'' + (d - 10))"

fun upper_hex :: "nat \<Rightarrow> str" where
  "upper_hex n = (if n < 16 then [hex_digit n] else upper_hex (n div 16) @ [hex_digit (n mod 16)])"

declare upper_hex.simps [simp del]

text \<open>
  The format specifications of the source: \<open>{:5X}\<close> is a minimum width of 5,
  right-aligned and filled with spaces (the default for numbers); \<open>{:04X}\<close> is a
  minimum width of 4 filled with zeros.
\<close>

definition pad_left :: "nat \<Rightarrow> nat \<Rightarrow> str \<Rightarrow> str" where
  "pad_left fill width s = replicate (width - length s) fill @ s"

definition format_5X :: "nat \<Rightarrow> str" where
  "format_5X n = pad_left (of_char CHR '' '') 5 (upper_hex n)"

definition format_04X :: "nat \<Rightarrow> str" where
  "format_04X n = pad_left (of_char CHR ''0'') 4 (upper_hex n)"

text \<open>
  \<open>ord(character)\<close> raises TypeError unless \<open>character\<close> is a string of length one.
\<close>

definition ord :: "str \<Rightarrow> exc + nat" where
  "ord character =
     (case character of
        [c] \<Rightarrow> Inr c
      | _ \<Rightarrow> Inl (TypeError (lit ''ord() expected a character'')))"

definition in_uplus_notation :: "str \<Rightarrow> exc + str" where
  "in_uplus_notation character =
     (case ord character of
        Inl e \<Rightarrow> Inl e
      | Inr ordinal \<Rightarrow>
          (if ordinal > 0xFFFF
           then Inr (lit ''U+'' @ format_5X ordinal)
           else Inr (lit ''U+'' @ format_04X ordinal)))"

text \<open>
  The label as the specification words it: \<open>U+\<close>, then the uppercase hexadecimal value
  padded with zeros to 4 digits below \<open>0x10000\<close> and to 5 digits from there on.
  \<open>hex_value\<close> reads a string of uppercase hexadecimal digits back as a number.
\<close>

definition spec_codepoint_label :: "nat \<Rightarrow> str" where
  "spec_codepoint_label c =
     lit ''U+'' @ pad_left (of_char CHR ''0'') (if c < 0x10000 then 4 else 5) (upper_hex c)"

definition hex_value :: "str \<Rightarrow> nat" where
  "hex_value s =
     foldl (\<lambda>acc d. 16 * acc + (if d < of_char CHR ''A'' then d - of_char CHR ''0''
                                   else d - of_char CHR ''A'' + 10)) 0 s"

subsection \<open>clean_literal and clean_template\<close>

definition clean_literal :: "str \<Rightarrow> exc + str" where
  "clean_literal literal =
     (if length literal \<ge> 2 then Inr (slice literal 1 (- 1)) else Inl AssertionError)"

definition clean_template :: "str \<Rightarrow> str" where
  "clean_template literal =
     (let end_trim = (if endswith literal (lit ''${'') then 2 else 1 :: int)
      in slice literal 1 (- end_trim))"

section \<open>Lexeme canonicalizer (language/javascript/__init__.py)\<close>

text \<open>
  A lexeme as \<open>stringify_lexeme\<close> receives it: the kind the lexer gave the token
  (\<open>token.name\<close>) and its literal text (\<open>token.value\<close>).
\<close>

record lexeme =
  name :: str
  val :: str

text \<open>
  What a call on the canonicalizer object can answer: a string, or another Python
  object (\<open>NotImplemented\<close>, or anything else, kept opaque).
\<close>

datatype pyobj = Str str | NotImplemented | Object string

type_synonym py_method = "str \<Rightarrow> exc + pyobj"

subsection \<open>The methods of class StringifyLexeme, one per token kind\<close>

definition Boolean :: py_method where
  "Boolean text = Inr (Str text)"

definition Identifier :: py_method where
  "Identifier text = Inr (Str (lit ''<IDENTIFIER>''))"

definition Keyword :: py_method where
  "Keyword text = Inr (Str text)"

definition Null :: py_method where
  "Null text = Inr (Str (lit ''null''))"

definition Numeric :: py_method where
  "Numeric text = Inr (Str (lit ''<NUMBER>''))"

definition Punctuator :: py_method where
  "Punctuator text = Inr (Str text)"

definition String :: py_method where
  "String text = Inr (Str (lit ''<STRING>''))"

definition RegularExpression :: py_method where
  "RegularExpression text = Inr (Str (lit ''<REGEXP>''))"

text \<open>
  \<open>Template\<close> asserts a length of at least 2, then looks at the first character and
  at the end of the text; a branch that matches neither ending falls through to the
  final \<open>raise TypeError\<close>.
\<close>

definition Template :: py_method where
  "Template text =
     (if \<not> length text \<ge> 2 then Inl AssertionError
      else if startswith text (lit ''`'') then
        (if endswith text (lit ''`'') then Inr (Str (lit ''<STANDALONE-TEMPLATE>''))
         else if endswith text (lit ''${'') then Inr (Str (lit ''<TEMPLATE-HEAD>''))
         else Inl (TypeError (lit ''Unhandled template literal: '' @ text)))
      else if startswith text (lit ''}'') then
        (if endswith text (lit ''`'') then Inr (Str (lit ''<TEMPLATE-TAIL>''))
         else if endswith text (lit ''${'') then Inr (Str (lit ''<TEMPLATE-MIDDLE>''))
         else Inl (TypeError (lit ''Unhandled template literal: '' @ text)))
      else Inl (TypeError (lit ''Unhandled template literal: '' @ text)))"

subsection \<open>Dispatch by attribute lookup\<close>

text \<open>
  \<open>__call__\<close> looks the handler up with \<open>getattr(self, token.name)\<close>. The lookup
  succeeds for the nine methods above (\<open>kind_method\<close>) and also for every other
  attribute the object has: \<open>__call__\<close> itself, \<open>__doc__\<close> and what the class
  inherits from \<open>object\<close>. Those belong to the Python runtime, not to this
  repository, so they are a parameter \<open>other\<close>: for an attribute name, what calling
  that attribute with one argument does, or \<open>None\<close> when the object has no such
  attribute. Only a failed lookup raises AttributeError, which \<open>__call__\<close> turns into
  \<open>TypeError('Unhandled type: ...')\<close>; the call \<open>fn(token.value)\<close> is outside
  the \<open>try\<close>.
\<close>

definition kind_method :: "str \<Rightarrow> py_method option" where
  "kind_method attr =
     (if attr = lit ''Boolean'' then Some Boolean
      else if attr = lit ''Identifier'' then Some Identifier
      else if attr = lit ''Keyword'' then Some Keyword
      else if attr = lit ''Null'' then Some Null
      else if attr = lit ''Numeric'' then Some Numeric
      else if attr = lit ''Punctuator'' then Some Punctuator
      else if attr = lit ''String'' then Some String
      else if attr = lit ''RegularExpression'' then Some RegularExpression
      else if attr = lit ''Template'' then Some Template
      else None)"

definition getattr :: "(str \<Rightarrow> py_method option) \<Rightarrow> str \<Rightarrow> exc + py_method" where
  "getattr other attr =
     (case kind_method attr of
        Some fn \<Rightarrow> Inr fn
      | None \<Rightarrow> (case other attr of Some fn \<Rightarrow> Inr fn | None \<Rightarrow> Inl AttributeError))"

definition stringify_lexeme :: "(str \<Rightarrow> py_method option) \<Rightarrow> lexeme \<Rightarrow> exc + pyobj" where
  "stringify_lexeme other token =
     (case getattr other (name token) of
        Inl AttributeError \<Rightarrow> Inl (TypeError (lit ''Unhandled type: '' @ name token))
      | Inl e \<Rightarrow> Inl e
      | Inr fn \<Rightarrow> fn (val token))"



section \<open>External processes\<close>

text \<open>
  Both modules hand the source to an external parser and read its standard output. The
  parser and the libraries that run it (\<open>subprocess\<close>, \<open>sh\<close>, \<open>json\<close>) are not part
  of the repository; a run is therefore an input of the model. A finished process is
  its exit status together with its standard output as the caller decodes it: the
  decoded value, or the exception that decoding raises on a malformed output
  (ValueError from \<open>json.loads\<close>, KeyError for a missing field). A run that does not
  finish normally is the exception it raises in the caller (OSError,
  KeyboardInterrupt).
\<close>

record 'a completed =
  returncode :: int
  stdout :: "exc + 'a"

type_synonym 'a run = "exc + 'a completed"

text \<open>A token object as the external parser prints it.\<close>

record position =
  line :: nat
  column :: nat

record esprima_token =
  tok_type :: str
  tok_value :: str
  loc_start :: position
  loc_end :: position

text \<open>
  Byte strings, file objects (by identity) and the values a caller can pass as source:
  a \<open>str\<close>, a \<open>bytes\<close>, an \<open>IOBase\<close> instance, or a value of any other type, which
  is kept as its description.
\<close>

type_synonym bytes = "nat list"

type_synonym handle = nat

datatype source =
    SourceStr str
  | SourceBytes bytes
  | SourceStream handle
  | SourceOther string

section \<open>Tokenizer adapter (language/javascript/__init__.py)\<close>

text \<open>
  The part of the outside world the adapter acts on: the file objects that are open,
  the next file object \<open>tempfile.TemporaryFile\<close> will create, and the calls of
  \<open>subprocess.run\<close> made so far, each with its command line and the file object
  passed as standard input.
\<close>

record world =
  open_files :: "handle set"
  next_handle :: handle
  runs :: "(string list \<times> handle) list"

text \<open>
  What the world answers during one call of the adapter: \<open>written\<close> is the exception
  raised while the source is encoded and written to the temporary file, if any;
  \<open>ran\<close> is the run of the external parser.
\<close>

record 'a env =
  written :: "exc option"
  ran :: "'a run"

definition close :: "handle \<Rightarrow> world \<Rightarrow> world" where
  "close f w = w\<lparr>open_files := open_files w - {f}\<rparr>"

text \<open>
  \<open>synthetic_file\<close> creates a temporary file and fills it. When writing fails the
  exception leaves the function and the file object it created is not closed here.
\<close>

definition synthetic_file :: "exc option \<Rightarrow> world \<Rightarrow> (exc + handle) \<times> world" where
  "synthetic_file wr w =
     (let file_obj = next_handle w;
          w' = w\<lparr>open_files := insert file_obj (open_files w), next_handle := Suc file_obj\<rparr>
      in case wr of Some e \<Rightarrow> (Inl e, w') | None \<Rightarrow> (Inr file_obj, w'))"

subsection \<open>class SafeSourceFile\<close>

record safe_source_file =
  source :: source
  owned :: "handle option"
  foreign :: "handle option"

definition init :: "source \<Rightarrow> safe_source_file" where
  "init src = \<lparr>source = src, owned = None, foreign = None\<rparr>"

text \<open>
  \<open>__enter__\<close>: a \<open>str\<close> or \<open>bytes\<close> source gets a file of the adapter's own, an
  \<open>IOBase\<close> instance is used as it is, anything else raises \<open>ValueError(self.source)\<close>.
  The result is \<open>self._owned or self._foreign\<close>.
\<close>

definition enter ::
  "exc option \<Rightarrow> safe_source_file \<Rightarrow> world \<Rightarrow> (exc + handle) \<times> safe_source_file \<times> world" where
  "enter wr self w =
     (case source self of
        SourceStream f \<Rightarrow> (Inr f, self\<lparr>foreign := Some f\<rparr>, w)
      | SourceOther v \<Rightarrow> (Inl (ValueError v), self, w)
      | _ \<Rightarrow>
          (case synthetic_file wr w of
             (Inl e, w') \<Rightarrow> (Inl e, self, w')
           | (Inr f, w') \<Rightarrow> (Inr f, self\<lparr>owned := Some f\<rparr>, w')))"

text \<open>\<open>__exit__\<close> closes the file only if it was created here.\<close>

definition exit :: "safe_source_file \<Rightarrow> world \<Rightarrow> exc option \<times> world" where
  "exit self w =
     (case owned self of
        Some f \<Rightarrow> (None, close f w)
      | None \<Rightarrow> (if foreign self \<noteq> None then (None, w) else (Some AssertionError, w)))"

text \<open>
  The statement \<open>with SafeSourceFile(source) as source_file: body\<close>. An exception of
  \<open>__enter__\<close> leaves at once; otherwise \<open>__exit__\<close> runs after the body whether the
  body raised or not, and since \<open>__exit__\<close> returns \<open>None\<close> an exception of the body
  is raised again after it.
\<close>

definition with_safe_source_file ::
  "source \<Rightarrow> exc option \<Rightarrow> (handle \<Rightarrow> world \<Rightarrow> (exc + 'r) \<times> world) \<Rightarrow> world
     \<Rightarrow> (exc + 'r) \<times> world" where
  "with_safe_source_file src wr body w =
     (case enter wr (init src) w of
        (Inl e, self, w1) \<Rightarrow> (Inl e, w1)
      | (Inr source_file, self, w1) \<Rightarrow>
          (case body source_file w1 of
             (result, w2) \<Rightarrow>
               (case exit self w2 of
                  (Some e, w3) \<Rightarrow> (Inl e, w3)
                | (None, w3) \<Rightarrow> (result, w3))))"

subsection \<open>Running the parser\<close>

text \<open>
  \<open>subprocess.run(args, check=..., stdin=file_obj, stdout=PIPE)\<close>: the call is
  recorded; with \<open>check=True\<close> a non-zero exit status raises CalledProcessError.
\<close>

definition subprocess_run ::
  "string list \<Rightarrow> bool \<Rightarrow> handle \<Rightarrow> 'a run \<Rightarrow> world \<Rightarrow> (exc + 'a completed) \<times> world" where
  "subprocess_run args check stdin r w =
     (let w' = w\<lparr>runs := runs w @ [(args, stdin)]\<rparr>
      in case r of
           Inl e \<Rightarrow> (Inl e, w')
         | Inr status \<Rightarrow>
             (if check \<and> returncode status \<noteq> 0
              then (Inl (CalledProcessError (returncode status)), w')
              else (Inr status, w')))"

text \<open>The source's \<open>_tokenize\<close> (an Isabelle name cannot start with an underscore).\<close>

definition tokenize_file ::
  "handle \<Rightarrow> 'a run \<Rightarrow> world \<Rightarrow> (exc + 'a completed) \<times> world" where
  "tokenize_file file_obj r w = subprocess_run [''esprima-interface''] True file_obj r w"

record token =
  token_name :: str
  token_value :: str
  token_start :: position
  token_end :: position

definition from_esprima_format :: "esprima_token \<Rightarrow> token" where
  "from_esprima_format tok =
     \<lparr>token_name = tok_type tok, token_value = tok_value tok,
      token_start = \<lparr>line = line (loc_start tok), column = column (loc_start tok)\<rparr>,
      token_end = \<lparr>line = line (loc_end tok), column = column (loc_end tok)\<rparr>\<rparr>"

definition tokenize ::
  "source \<Rightarrow> (esprima_token list) env \<Rightarrow> world \<Rightarrow> (exc + token list) \<times> world" where
  "tokenize src e w =
     (case with_safe_source_file src (written e) (\<lambda>source_file. tokenize_file source_file (ran e)) w of
        (Inl x, w') \<Rightarrow> (Inl x, w')
      | (Inr status, w') \<Rightarrow>
          (case stdout status of
             Inl x \<Rightarrow> (Inl x, w')
           | Inr toks \<Rightarrow> (Inr (map from_esprima_format toks), w')))"

definition check_syntax :: "source \<Rightarrow> 'a env \<Rightarrow> world \<Rightarrow> (exc + bool) \<times> world" where
  "check_syntax src e w =
     (case with_safe_source_file src (written e)
             (\<lambda>source_file. subprocess_run [''esprima-interface'', ''--check-syntax''] False
                source_file (ran e)) w of
        (Inl x, w') \<Rightarrow> (Inl x, w')
      | (Inr status, w') \<Rightarrow> (Inr (returncode status = 0), w'))"

section \<open>parse_js (parse_worker.py)\<close>

text \<open>
  \<open>node('parse-js', name)\<close> through the \<open>sh\<close> library: a command that ends with an
  exit code other than 0 raises the exception class \<open>ErrorReturnCode_<code>\<close>.
\<close>

definition node :: "'a run \<Rightarrow> exc + 'a completed" where
  "node r =
     (case r of
        Inl e \<Rightarrow> Inl e
      | Inr result \<Rightarrow>
          (if returncode result \<noteq> 0 then Inl (ErrorReturnCode (returncode result))
           else Inr result))"

text \<open>The abstract syntax tree is opaque; it is kept as its serialisation.\<close>

type_synonym ast = string

text \<open>
  \<open>parse_js\<close> encodes a \<open>str\<close>, writes the bytes to a named temporary file and runs
  the parser on it. Writing a file object raises TypeError; for a value of another
  type the write raises TypeError unless the value is bytes-like, which is part of the
  answer \<open>written\<close>. Only
  \<open>sh.ErrorReturnCode_1\<close> is caught and turned into ParseError. The temporary file is
  closed by its \<open>with\<close> statement on every path. The output is decoded after that.
\<close>

definition parse_js ::
  "source \<Rightarrow> (esprima_token list \<times> ast) env \<Rightarrow> exc + (esprima_token list \<times> ast)" where
  "parse_js src e =
     (case src of
        SourceStream f \<Rightarrow> Inl (TypeError (lit ''a bytes-like object is required''))
      | _ \<Rightarrow>
          (case written e of
             Some x \<Rightarrow> Inl x
           | None \<Rightarrow>
               (case node (ran e) of
                  Inl (ErrorReturnCode n) \<Rightarrow>
                    (if n = 1 then Inl ParseError else Inl (ErrorReturnCode n))
                | Inl x \<Rightarrow> Inl x
                | Inr result_string \<Rightarrow>
                    (case stdout result_string of
                       Inl x \<Rightarrow> Inl x
                     | Inr result \<Rightarrow> Inr (fst result, snd result)))))"

section \<open>Counting codepoints (parse_worker.py)\<close>

text \<open>
  \<open>find_literals\<close> is a generator over the tokens; its consumer stops at the first
  exception, so it is modelled by the list of literals it yields or the exception
  raised on the way (the assertion of \<open>clean_literal\<close>).
\<close>

fun find_literals :: "esprima_token list \<Rightarrow> exc + str list" where
  "find_literals [] = Inr []"
| "find_literals (token # tokens) =
     (if tok_type token = lit ''String'' then
        (case clean_literal (tok_value token) of
           Inl e \<Rightarrow> Inl e
         | Inr literal \<Rightarrow>
             (case find_literals tokens of Inl e \<Rightarrow> Inl e | Inr rest \<Rightarrow> Inr (literal # rest)))
      else if tok_type token = lit ''Template'' then
        (case find_literals tokens of
           Inl e \<Rightarrow> Inl e
         | Inr rest \<Rightarrow> Inr (clean_template (tok_value token) # rest))
      else find_literals tokens)"

text \<open>
  A \<open>Counter\<close>: labels with their counts, in the order the labels were first counted.
  \<open>increment\<close> is \<open>counter[key] += 1\<close>.
\<close>

type_synonym counter = "(str \<times> nat) list"

definition increment :: "counter \<Rightarrow> str \<Rightarrow> counter" where
  "increment counter key =
     (case map_of counter key of
        None \<Rightarrow> counter @ [(key, 1)]
      | Some n \<Rightarrow> map (\<lambda>(k, v). if k = key then (k, v + 1) else (k, v)) counter)"

fun count_scalar_values :: "counter \<Rightarrow> str \<Rightarrow> exc + counter" where
  "count_scalar_values counter [] = Inr counter"
| "count_scalar_values counter (scalar_value # rest) =
     (case in_uplus_notation [scalar_value] of
        Inl e \<Rightarrow> Inl e
      | Inr label \<Rightarrow> count_scalar_values (increment counter label) rest)"

fun count_literals :: "counter \<Rightarrow> str list \<Rightarrow> exc + counter" where
  "count_literals counter [] = Inr counter"
| "count_literals counter (literal # rest) =
     (case count_scalar_values counter literal of
        Inl e \<Rightarrow> Inl e
      | Inr counter' \<Rightarrow> count_literals counter' rest)"

definition count_codepoints_in_literals :: "esprima_token list \<Rightarrow> exc + counter" where
  "count_codepoints_in_literals tokens =
     (case find_literals tokens of
        Inl e \<Rightarrow> Inl e
      | Inr literals \<Rightarrow> count_literals [] literals)"

text \<open>
  \<open>insert_count\<close> sends one \<open>zincrby\<close> per label, in the order of
  \<open>counter.most_common()\<close> (by descending count, labels of equal count in their
  original order), through one pipeline that is executed at the end.
\<close>

definition most_common :: "counter \<Rightarrow> counter" where
  "most_common counter = sort_key (\<lambda>(label, n). - int n) counter"

section \<open>Mining worker (parse_worker.py, main)\<close>

text \<open>
  The worker acts on the queue, the error queue, the database and the aggregate store
  only through calls; a call that completes is recorded as an event, in order.
  \<open>Insert_count\<close> carries the increments of the executed pipeline; \<open>Abort h\<close> is
  \<open>aborted << h\<close>, the push to the error queue.
\<close>

datatype event =
    Add_parsed_source str "esprima_token list" ast
  | Insert_count "(str \<times> nat) list"
  | Set_failure str
  | Acknowledge str
  | Abort str

text \<open>
  What the outside answers during one pass of the loop. \<open>got\<close> is \<open>worker.get()\<close>
  and \<open>decoded\<close> what \<open>.decode('utf-8')\<close> makes of the bytes; \<open>source_code\<close> is
  \<open>db.get_source\<close>; \<open>parse\<close> holds the answers to \<open>parse_js\<close>. For each of the
  calls \<open>db.add_parsed_source\<close>, \<open>insert_count\<close>, \<open>db.set_failure\<close>,
  \<open>worker.acknowledge\<close> and \<open>aborted << file_hash\<close> the field says which exception
  the call raises, if any: \<open>None\<close> means that the call completes, \<open>Some e\<close> that it
  raises \<open>e\<close> before having any effect. A cancellation signal that arrives during a
  call is the exception KeyboardInterrupt raised by that call.
\<close>

record round =
  got :: "exc + bytes"
  decoded :: "exc + str"
  source_code :: "exc + source"
  parse :: "(esprima_token list \<times> ast) env"
  added :: "exc option"
  counted :: "exc option"
  failed :: "exc option"
  acknowledged :: "exc option"
  aborted :: "exc option"

text \<open>
  The suite of the \<open>try\<close> statement (source lines 186 to 189): the events of the
  calls that completed, and the exception that ended the suite, if any.
\<close>

definition try_suite :: "round \<Rightarrow> str \<Rightarrow> event list \<times> exc option" where
  "try_suite r file_hash =
     (case source_code r of
        Inl e \<Rightarrow> ([], Some e)
      | Inr src \<Rightarrow>
          (case parse_js src (parse r) of
             Inl e \<Rightarrow> ([], Some e)
           | Inr (tokens, tree) \<Rightarrow>
               (case added r of
                  Some e \<Rightarrow> ([], Some e)
                | None \<Rightarrow>
                    (case count_codepoints_in_literals tokens of
                       Inl e \<Rightarrow> ([Add_parsed_source file_hash tokens tree], Some e)
                     | Inr counter \<Rightarrow>
                         (case counted r of
                            Some e \<Rightarrow> ([Add_parsed_source file_hash tokens tree], Some e)
                          | None \<Rightarrow>
                              ([Add_parsed_source file_hash tokens tree,
                                Insert_count (most_common counter)],
                               None))))))"

text \<open>How one pass through the body of \<open>while True\<close> ends.\<close>

datatype flow = Continue | Break | Raise exc

text \<open>A call made in a handler or in the \<open>else\<close> clause, followed by the rest of that clause.\<close>

definition call :: "exc option \<Rightarrow> event \<Rightarrow> event list \<times> flow \<Rightarrow> event list \<times> flow" where
  "call outcome ev rest =
     (case outcome of
        Some e \<Rightarrow> ([], Raise e)
      | None \<Rightarrow> (ev # fst rest, snd rest))"

text \<open>
  The whole \<open>try\<close> statement (source lines 185 to 204). An exception raised inside a
  handler or inside the \<open>else\<close> clause is not caught by the other handlers of the same
  statement: it leaves the loop.
\<close>

definition handle_item :: "round \<Rightarrow> str \<Rightarrow> event list \<times> flow" where
  "handle_item r file_hash =
     (case try_suite r file_hash of
        (evs, Some KeyboardInterrupt) \<Rightarrow>
          (let (evs', fl) = call (aborted r) (Abort file_hash) ([], Break)
           in (evs @ evs', fl))
      | (evs, Some ParseError) \<Rightarrow>
          (let (evs', fl) = call (failed r) (Set_failure file_hash)
                 (call (acknowledged r) (Acknowledge file_hash) ([], Continue))
           in (evs @ evs', fl))
      | (evs, Some e) \<Rightarrow>
          (let (evs', fl) = call (aborted r) (Abort file_hash)
                 (call (acknowledged r) (Acknowledge file_hash) ([], Continue))
           in (evs @ evs', fl))
      | (evs, None) \<Rightarrow>
          (let (evs', fl) = call (acknowledged r) (Acknowledge file_hash) ([], Continue)
           in (evs @ evs', fl)))"

text \<open>
  How the loop of \<open>main\<close> stands after the given passes: left by \<open>break\<close>, left by an
  exception that nothing catches, or still running (blocked in \<open>worker.get()\<close> once
  the listed answers are used up).
\<close>

datatype exit = Stopped | Crashed exc | Waiting

fun main :: "round list \<Rightarrow> event list \<times> exit" where
  "main [] = ([], Waiting)"
| "main (r # rounds) =
     (case got r of
        Inl KeyboardInterrupt \<Rightarrow> ([], Stopped)
      | Inl e \<Rightarrow> ([], Crashed e)
      | Inr raw \<Rightarrow>
          (case decoded r of
             Inl e \<Rightarrow> ([], Crashed e)
           | Inr file_hash \<Rightarrow>
               (case handle_item r file_hash of
                  (evs, Continue) \<Rightarrow> (evs @ fst (main rounds), snd (main rounds))
                | (evs, Break) \<Rightarrow> (evs, Stopped)
                | (evs, Raise e) \<Rightarrow> (evs, Crashed e))))"

text \<open>The file hashes the loop pulled from the queue during the given passes.\<close>

fun dequeued :: "round list \<Rightarrow> str list" where
  "dequeued [] = []"
| "dequeued (r # rounds) =
     (case got r of
        Inl e \<Rightarrow> []
      | Inr raw \<Rightarrow>
          (case decoded r of
             Inl e \<Rightarrow> []
           | Inr file_hash \<Rightarrow>
               file_hash # (if snd (handle_item r file_hash) = Continue then dequeued rounds else [])))"

subsection \<open>Example passes\<close>

text \<open>
  Two passes of the loop on concrete answers: the source \<open>void 0;\<close>, which the parser
  accepts with three tokens, and the source \<open>%$\<close>, on which the parser exits with
  status 1. Every other call completes.
\<close>

definition void0_tokens :: "esprima_token list" where
  "void0_tokens =
     [\<lparr>tok_type = lit ''Keyword'', tok_value = lit ''void'',
       loc_start = \<lparr>line = 1, column = 0\<rparr>, loc_end = \<lparr>line = 1, column = 4\<rparr>\<rparr>,
      \<lparr>tok_type = lit ''Numeric'', tok_value = lit ''0'',
       loc_start = \<lparr>line = 1, column = 5\<rparr>, loc_end = \<lparr>line = 1, column = 6\<rparr>\<rparr>,
      \<lparr>tok_type = lit ''Punctuator'', tok_value = lit '';'',
       loc_start = \<lparr>line = 1, column = 6\<rparr>, loc_end = \<lparr>line = 1, column = 7\<rparr>\<rparr>]"

text \<open>
  The tokens of the source in the docstring of \<open>count_codepoints_in_literals\<close>: two
  empty strings, a template with two interpolations separated by a comma and a space,
  and a string holding U+1F618. Positions play no role in the count and are left at the
  start of line 1.
\<close>

definition tok :: "string \<Rightarrow> str \<Rightarrow> esprima_token" where
  "tok kind text =
     \<lparr>tok_type = lit kind, tok_value = text,
      loc_start = \<lparr>line = 1, column = 0\<rparr>, loc_end = \<lparr>line = 1, column = 0\<rparr>\<rparr>"

definition docstring_tokens :: "esprima_token list" where
  "docstring_tokens =
     [tok ''String'' [34, 34], tok ''Punctuator'' (lit '';''),
      tok ''String'' [39, 39], tok ''Punctuator'' (lit '';''),
      tok ''Template'' (lit ''`${''), tok ''Identifier'' (lit ''hello''),
      tok ''Template'' (lit ''}, ${''), tok ''Identifier'' (lit ''world''),
      tok ''Template'' (lit ''}`''), tok ''Punctuator'' (lit '';''),
      tok ''String'' [39, 128536, 39], tok ''Punctuator'' (lit '';'')]"

definition pass_ok :: round where
  "pass_ok =
     \<lparr>got = Inr (lit ''0a1b''), decoded = Inr (lit ''0a1b''),
      source_code = Inr (SourceBytes (lit ''void 0;'')),
      parse = \<lparr>written = None,
               ran = Inr \<lparr>returncode = 0, stdout = Inr (void0_tokens, ''Program'')\<rparr>\<rparr>,
      added = None, counted = None, failed = None, acknowledged = None, aborted = None\<rparr>"

definition pass_syntax_error :: round where
  "pass_syntax_error =
     pass_ok\<lparr>got := Inr (lit ''2c3d''), decoded := Inr (lit ''2c3d''),
       source_code := Inr (SourceBytes (lit ''%$'')),
       parse := \<lparr>written = None,
                 ran = Inr \<lparr>returncode = 1, stdout = Inl (ValueError ''no JSON'')\<rparr>\<rparr>\<rparr>"

section \<open>Properties of the string helpers\<close>

lemma startswith_prefix: "startswith s p = prefix p s"
  unfolding startswith_def
  by (metis append_eq_conv_conj prefix_def take_is_prefix)

lemma endswith_suffix: "endswith s p = suffix p s"
  unfolding endswith_def
  by (metis append_take_drop_id diff_add_inverse2 length_append suffix_def suffix_length_le
      append_eq_conv_conj)

text \<open>The slice \<open>s[1:-k]\<close> for a positive \<open>k\<close> drops one element in front and \<open>k\<close> behind.\<close>

lemma slice_strip_ends: "0 < k \<Longrightarrow> slice s 1 (- int k) = drop 1 (take (length s - k) s)"
  by (auto simp: slice_def slice_index_def Let_def drop_take min_def nat_diff_distrib' max_def)

lemma butlast_tl_take: "butlast (tl s) = drop 1 (take (length s - 1) s)"
  by (simp add: butlast_conv_take drop_Suc drop_take tl_drop)

lemma butlast2_tl_take: "butlast (butlast (tl s)) = drop 1 (take (length s - 2) s)"
  by (simp add: butlast_conv_take drop_Suc drop_take tl_drop tl_take numeral_3_eq_3)

section \<open>Properties of the literal codepoint profiler\<close>

text \<open>
  Claim C6. For every Template token text, \<open>clean_template\<close> removes the first
  character always, and the last character unless the text ends with the two-character
  marker \<open>${\<close>, in which case it removes the last two characters. In particular the
  tail fragment made of a closing brace and a backtick gives the empty string, and the
  head fragment \<open>`Hello, ${\<close> gives \<open>Hello, \<close>.
\<close>

theorem clean_template_strips:
  "clean_template literal =
     (if suffix (lit ''${'') literal then butlast (butlast (tl literal)) else butlast (tl literal))
   \<and> clean_template (lit ''}`'') = lit ''''
   \<and> clean_template (lit ''`Hello, ${'') = lit ''Hello, ''"
proof (intro conjI)
  have "slice literal 1 (- 2) = butlast (butlast (tl literal))"
    using slice_strip_ends [of 2 literal] by (simp add: butlast2_tl_take)
  moreover have "slice literal 1 (- 1) = butlast (tl literal)"
    using slice_strip_ends [of 1 literal] by (simp add: butlast_tl_take)
  ultimately show "clean_template literal =
     (if suffix (lit ''${'') literal then butlast (butlast (tl literal)) else butlast (tl literal))"
    by (simp add: clean_template_def endswith_suffix)
  show "clean_template (lit ''}`'') = lit ''''"
    by (simp add: clean_template_def lit_def endswith_def slice_def slice_index_def)
  show "clean_template (lit ''`Hello, ${'') = lit ''Hello, ''"
    by (simp add: clean_template_def lit_def endswith_def slice_def slice_index_def)
qed

text \<open>The digits \<open>upper_hex\<close> produces denote the number they were produced from.\<close>

lemma hex_digit_value:
  "d < 16 \<Longrightarrow>
   (if hex_digit d < of_char CHR ''A'' then hex_digit d - of_char CHR ''0''
    else hex_digit d - of_char CHR ''A'' + 10) = d"
  by (simp add: hex_digit_def)

lemma hex_value_upper_hex: "hex_value (upper_hex n) = n"
proof (induction n rule: upper_hex.induct)
  case (1 n)
  show ?case
  proof (cases "n < 16")
    case True
    then show ?thesis using hex_digit_value [of n]
      by (subst upper_hex.simps) (simp add: hex_value_def)
  next
    case False
    with 1 have "hex_value (upper_hex (n div 16)) = n div 16" by simp
    then show ?thesis using False hex_digit_value [of "n mod 16"]
      by (subst upper_hex.simps) (simp add: hex_value_def)
  qed
qed

text \<open>A number of at least \<open>16 ^ k\<close> has more than \<open>k\<close> hexadecimal digits.\<close>

lemma length_upper_hex: "16 ^ k \<le> n \<Longrightarrow> k < length (upper_hex n)"
proof (induction k arbitrary: n)
  case 0
  then show ?case by (subst upper_hex.simps) simp
next
  case (Suc k)
  then have "16 ^ k \<le> n div 16" by (simp add: less_eq_div_iff_mult_less_eq mult.commute)
  then have "k < length (upper_hex (n div 16))" by (rule Suc.IH)
  moreover have "(16::nat) \<le> 16 ^ Suc k" by simp
  then have "\<not> n < 16" using Suc.prems by linarith
  ultimately show ?case by (subst upper_hex.simps) simp
qed

text \<open>
  The docstring example of \<open>count_codepoints_in_literals\<close>: the comma, the space and
  U+1F618 are counted once each.
\<close>

lemma docstring_labels:
  "in_uplus_notation [44] = Inr (lit ''U+002C'')"
  "in_uplus_notation [32] = Inr (lit ''U+0020'')"
  "in_uplus_notation [128536] = Inr (lit ''U+1F618'')"
  by (simp_all add: in_uplus_notation_def ord_def format_5X_def format_04X_def pad_left_def
      upper_hex.simps hex_digit_def lit_def numeral_2_eq_2)

lemma docstring_literals:
  "find_literals docstring_tokens = Inr [[], [], [], [44, 32], [], [128536]]"
  by (simp add: docstring_tokens_def tok_def lit_def clean_literal_def clean_template_def
      endswith_def slice_def slice_index_def)

lemma docstring_counts:
  "count_codepoints_in_literals docstring_tokens
     = Inr [(lit ''U+002C'', 1), (lit ''U+0020'', 1), (lit ''U+1F618'', 1)]"
  by (simp add: count_codepoints_in_literals_def docstring_literals docstring_labels
      increment_def) (simp add: lit_def)

text \<open>
  Claim C7. For every code point the label is \<open>U+\<close> followed by the uppercase
  hexadecimal value, padded with zeros to 4 digits below \<open>0x10000\<close> and to 5 digits at
  or above it (where the source's space padding to width 5 never adds a character);
  \<open>0x1F618\<close> is labelled \<open>U+1F618\<close> and \<open>0x41\<close> is labelled \<open>U+0041\<close>.
\<close>

theorem in_uplus_notation_label:
  "in_uplus_notation [c] = Inr (spec_codepoint_label c)
   \<and> in_uplus_notation [0x1F618] = Inr (lit ''U+1F618'')
   \<and> in_uplus_notation [0x41] = Inr (lit ''U+0041'')"
proof (intro conjI)
  show "in_uplus_notation [c] = Inr (spec_codepoint_label c)"
  proof (cases "0xFFFF < c")
    case True
    then have "5 \<le> length (upper_hex c)" using length_upper_hex [of 4 c] by simp
    then show ?thesis using True
      by (simp add: in_uplus_notation_def ord_def spec_codepoint_label_def format_5X_def
          pad_left_def)
  next
    case False
    then show ?thesis
      by (simp add: in_uplus_notation_def ord_def spec_codepoint_label_def format_04X_def)
  qed
  show "in_uplus_notation [0x1F618] = Inr (lit ''U+1F618'')"
    by (simp add: in_uplus_notation_def ord_def format_5X_def pad_left_def upper_hex.simps
        hex_digit_def lit_def)
  show "in_uplus_notation [0x41] = Inr (lit ''U+0041'')"
    by (simp add: in_uplus_notation_def ord_def format_04X_def pad_left_def upper_hex.simps
        hex_digit_def lit_def numeral_2_eq_2)
qed

section \<open>Properties of the lexeme canonicalizer\<close>


text \<open>The two opening delimiters exclude each other, and so do the two closing ones.\<close>

lemma backtick_or_brace: "\<not> (prefix (lit ''`'') text \<and> prefix (lit ''}'') text)"
  by (auto simp: prefix_def lit_def)

lemma backtick_or_dollar: "\<not> (suffix (lit ''`'') text \<and> suffix (lit ''${'') text)"
  by (auto simp: suffix_def lit_def)

text \<open>
  Claim C4. For every Template token text of length at least 2, the canonicalizer
  classifies it by its delimiters: backtick at both ends gives
  \<open><STANDALONE-TEMPLATE>\<close>; a backtick in front and the interpolation-open marker
  \<open>${\<close> at the end gives \<open><TEMPLATE-HEAD>\<close>; the interpolation-close marker in
  front and a backtick at the end gives \<open><TEMPLATE-TAIL>\<close>; interpolation markers at
  both ends give \<open><TEMPLATE-MIDDLE>\<close>; any other shape raises TypeError.
\<close>

theorem Template_shapes:
  assumes "2 \<le> length text"
  shows "Template text =
     (if prefix (lit ''`'') text \<and> suffix (lit ''`'') text
        then Inr (Str (lit ''<STANDALONE-TEMPLATE>''))
      else if prefix (lit ''`'') text \<and> suffix (lit ''${'') text
        then Inr (Str (lit ''<TEMPLATE-HEAD>''))
      else if prefix (lit ''}'') text \<and> suffix (lit ''`'') text
        then Inr (Str (lit ''<TEMPLATE-TAIL>''))
      else if prefix (lit ''}'') text \<and> suffix (lit ''${'') text
        then Inr (Str (lit ''<TEMPLATE-MIDDLE>''))
      else Inl (TypeError (lit ''Unhandled template literal: '' @ text)))"
  using assms backtick_or_brace [of "text"] backtick_or_dollar [of "text"]
  by (simp add: Template_def startswith_prefix endswith_suffix)

theorem Template_shapes_witness:
  "Template (lit ''`standalone`'') = Inr (Str (lit ''<STANDALONE-TEMPLATE>''))
   \<and> Template (lit ''`${'') = Inr (Str (lit ''<TEMPLATE-HEAD>''))
   \<and> Template (lit ''}`'') = Inr (Str (lit ''<TEMPLATE-TAIL>''))
   \<and> Template (lit ''}text${'') = Inr (Str (lit ''<TEMPLATE-MIDDLE>''))
   \<and> Template (lit ''${'') = Inl (TypeError (lit ''Unhandled template literal: ${''))"
  using Template_shapes [of "lit ''`standalone`''"] Template_shapes [of "lit ''`${''"]
    Template_shapes [of "lit ''}`''"] Template_shapes [of "lit ''}text${''"]
    Template_shapes [of "lit ''${''"]
  by (simp add: lit_def suffix_to_prefix)

text \<open>
  Claim C5. Whatever else the canonicalizer object has as attributes, a Boolean,
  Keyword or Punctuator token is mapped to its literal text, a Null token to
  \<open>null\<close>, an Identifier token to \<open><IDENTIFIER>\<close>, a Numeric token to
  \<open><NUMBER>\<close>, a String token to \<open><STRING>\<close> and a RegularExpression token to
  \<open><REGEXP>\<close>: the result is a function of the token alone.
\<close>

theorem stringify_lexeme_by_kind:
  "stringify_lexeme other \<lparr>name = lit ''Boolean'', val = text\<rparr> = Inr (Str text)
   \<and> stringify_lexeme other \<lparr>name = lit ''Keyword'', val = text\<rparr> = Inr (Str text)
   \<and> stringify_lexeme other \<lparr>name = lit ''Punctuator'', val = text\<rparr> = Inr (Str text)
   \<and> stringify_lexeme other \<lparr>name = lit ''Null'', val = text\<rparr> = Inr (Str (lit ''null''))
   \<and> stringify_lexeme other \<lparr>name = lit ''Identifier'', val = text\<rparr>
       = Inr (Str (lit ''<IDENTIFIER>''))
   \<and> stringify_lexeme other \<lparr>name = lit ''Numeric'', val = text\<rparr> = Inr (Str (lit ''<NUMBER>''))
   \<and> stringify_lexeme other \<lparr>name = lit ''String'', val = text\<rparr> = Inr (Str (lit ''<STRING>''))
   \<and> stringify_lexeme other \<lparr>name = lit ''RegularExpression'', val = text\<rparr>
       = Inr (Str (lit ''<REGEXP>''))"
proof -
  have k: "kind_method (lit ''Boolean'') = Some Boolean"
    "kind_method (lit ''Keyword'') = Some Keyword"
    "kind_method (lit ''Punctuator'') = Some Punctuator"
    "kind_method (lit ''Null'') = Some Null"
    "kind_method (lit ''Identifier'') = Some Identifier"
    "kind_method (lit ''Numeric'') = Some Numeric"
    "kind_method (lit ''String'') = Some String"
    "kind_method (lit ''RegularExpression'') = Some RegularExpression"
    by (simp_all add: kind_method_def lit_def)
  show ?thesis
    by (simp add: stringify_lexeme_def getattr_def k Boolean_def Keyword_def Punctuator_def
        Null_def Identifier_def Numeric_def String_def RegularExpression_def)
qed






section \<open>Properties of the tokenizer adapter\<close>

lemmas adapter_defs = tokenize_def check_syntax_def with_safe_source_file_def enter_def exit_def
  init_def synthetic_file_def tokenize_file_def subprocess_run_def close_def Let_def




text \<open>
  Claim C9. For a source that is neither a \<open>str\<close>, nor \<open>bytes\<close>, nor an \<open>IOBase\<close>
  instance, \<open>tokenize\<close> and \<open>check_syntax\<close> raise ValueError carrying that value and
  leave the world as it was: no file was created and \<open>subprocess.run\<close> was not called.
\<close>

theorem unsupported_source_raises:
  "tokenize (SourceOther v) e w = (Inl (ValueError v), w)
   \<and> check_syntax (SourceOther v) e' w = (Inl (ValueError v), w)"
  by (simp add: adapter_defs)

text \<open>
  Claim C10. When the source is an already open stream, \<open>tokenize\<close> and
  \<open>check_syntax\<close> leave the set of open files as it was, whatever the parser run
  does (success or exception). For a \<open>str\<close> or \<open>bytes\<close> source that was written,
  the only file closed is the temporary one the adapter created, and on every path and
  for every source no file other than that one is closed.
\<close>

theorem foreign_stream_stays_open:
  "open_files (snd (tokenize (SourceStream f) e w)) = open_files w
   \<and> open_files (snd (check_syntax (SourceStream f) e' w)) = open_files w
   \<and> open_files (snd (tokenize (SourceStr s) (e\<lparr>written := None\<rparr>) w))
       = open_files w - {next_handle w}
   \<and> open_files (snd (tokenize (SourceBytes b) (e\<lparr>written := None\<rparr>) w))
       = open_files w - {next_handle w}
   \<and> open_files (snd (check_syntax (SourceStr s) (e'\<lparr>written := None\<rparr>) w))
       = open_files w - {next_handle w}
   \<and> open_files (snd (check_syntax (SourceBytes b) (e'\<lparr>written := None\<rparr>) w))
       = open_files w - {next_handle w}
   \<and> open_files w - {next_handle w} \<subseteq> open_files (snd (tokenize src e w))
   \<and> open_files w - {next_handle w} \<subseteq> open_files (snd (check_syntax src e' w))"
  by (auto simp: adapter_defs split: sum.splits option.splits source.splits)

section \<open>Properties of the mining worker\<close>

text \<open>The handlers of the \<open>try\<close> statement, one equation per way the suite can end.\<close>

lemma handle_item_interrupted:
  "try_suite r h = (evs, Some KeyboardInterrupt) \<Longrightarrow>
   handle_item r h =
     (case aborted r of Some e \<Rightarrow> (evs, Raise e) | None \<Rightarrow> (evs @ [Abort h], Break))"
  by (simp add: handle_item_def call_def split: option.splits)

lemma handle_item_syntax_error:
  "try_suite r h = (evs, Some ParseError) \<Longrightarrow>
   handle_item r h =
     (case failed r of
        Some e \<Rightarrow> (evs, Raise e)
      | None \<Rightarrow>
          (case acknowledged r of
             Some e \<Rightarrow> (evs @ [Set_failure h], Raise e)
           | None \<Rightarrow> (evs @ [Set_failure h, Acknowledge h], Continue)))"
  by (simp add: handle_item_def call_def split: option.splits)

lemma handle_item_fault:
  "try_suite r h = (evs, Some e) \<Longrightarrow> e \<noteq> KeyboardInterrupt \<Longrightarrow> e \<noteq> ParseError \<Longrightarrow>
   handle_item r h =
     (case aborted r of
        Some e' \<Rightarrow> (evs, Raise e')
      | None \<Rightarrow>
          (case acknowledged r of
             Some e' \<Rightarrow> (evs @ [Abort h], Raise e')
           | None \<Rightarrow> (evs @ [Abort h, Acknowledge h], Continue)))"
  by (cases e) (simp_all add: handle_item_def call_def split: option.splits)

lemma handle_item_success:
  "try_suite r h = (evs, None) \<Longrightarrow>
   handle_item r h =
     (case acknowledged r of
        Some e \<Rightarrow> (evs, Raise e)
      | None \<Rightarrow> (evs @ [Acknowledge h], Continue))"
  by (simp add: handle_item_def call_def split: option.splits)

text \<open>The suite itself only persists: it records no acknowledgment and no abort.\<close>

lemma try_suite_events:
  "fst (try_suite r h) = [] \<or>
   (\<exists>tokens tree. fst (try_suite r h) = [Add_parsed_source h tokens tree]) \<or>
   (\<exists>tokens tree counter. fst (try_suite r h)
       = [Add_parsed_source h tokens tree, Insert_count counter])"
  by (auto simp: try_suite_def split: sum.splits option.splits prod.splits)

lemma try_suite_success:
  "snd (try_suite r h) = None \<Longrightarrow>
   \<exists>tokens tree counter. fst (try_suite r h)
       = [Add_parsed_source h tokens tree, Insert_count counter]"
  by (auto simp: try_suite_def split: sum.splits option.splits prod.splits)

lemma try_suite_no_ack: "Acknowledge x \<notin> set (fst (try_suite r h))"
  using try_suite_events [of r h] by auto

lemma try_suite_no_abort: "Abort x \<notin> set (fst (try_suite r h))"
  using try_suite_events [of r h] by auto


text \<open>The example passes, evaluated.\<close>

lemma count_void0: "count_codepoints_in_literals void0_tokens = Inr []"
  by (simp add: count_codepoints_in_literals_def void0_tokens_def lit_def)

lemma try_suite_pass_ok:
  "try_suite pass_ok h = ([Add_parsed_source h void0_tokens ''Program'', Insert_count []], None)"
  by (simp add: try_suite_def pass_ok_def parse_js_def node_def count_void0 most_common_def)

lemma try_suite_pass_syntax_error: "try_suite pass_syntax_error h = ([], Some ParseError)"
  by (simp add: try_suite_def pass_syntax_error_def pass_ok_def parse_js_def node_def)

lemma pass_pulled:
  "got pass_ok = Inr (lit ''0a1b'')" "decoded pass_ok = Inr (lit ''0a1b'')"
  "got pass_syntax_error = Inr (lit ''2c3d'')" "decoded pass_syntax_error = Inr (lit ''2c3d'')"
  by (simp_all add: pass_syntax_error_def pass_ok_def)

lemma handle_item_pass_ok:
  "handle_item pass_ok h
     = ([Add_parsed_source h void0_tokens ''Program'', Insert_count [], Acknowledge h], Continue)"
  using handle_item_success [OF try_suite_pass_ok, of h] by (simp add: pass_ok_def)

lemma handle_item_pass_syntax_error:
  "handle_item pass_syntax_error h = ([Set_failure h, Acknowledge h], Continue)"
  using handle_item_syntax_error [OF try_suite_pass_syntax_error, of h]
  by (simp add: pass_syntax_error_def pass_ok_def)

text \<open>One pass acknowledges its own file hash at most once, and no other.\<close>

lemma handle_item_ack_count:
  "count_list (fst (handle_item r h)) (Acknowledge h') \<le> (if h' = h then 1 else 0)"
proof -
  obtain evs x where t: "try_suite r h = (evs, x)" by (cases "try_suite r h")
  have n: "count_list evs (Acknowledge h') = 0"
    using try_suite_no_ack [of h' r h] t by (simp add: count_list_0_iff)
  show ?thesis
  proof (cases x)
    case None
    then show ?thesis using t n by (auto simp: handle_item_success split: option.splits)
  next
    case (Some e)
    consider "e = KeyboardInterrupt" | "e = ParseError"
      | "e \<noteq> KeyboardInterrupt \<and> e \<noteq> ParseError" by blast
    then show ?thesis
    proof cases
      case 1
      then show ?thesis using t n Some by (auto simp: handle_item_interrupted split: option.splits)
    next
      case 2
      then show ?thesis using t n Some by (auto simp: handle_item_syntax_error split: option.splits)
    next
      case 3
      then show ?thesis using t n Some by (auto simp: handle_item_fault split: option.splits)
    qed
  qed
qed

text \<open>Over the whole loop, a hash is acknowledged at most as often as it was pulled.\<close>

lemma main_ack_count:
  "count_list (fst (main rounds)) (Acknowledge h') \<le> count_list (dequeued rounds) h'"
proof (induction rounds)
  case Nil
  then show ?case by simp
next
  case (Cons r rounds)
  show ?case
  proof (cases "got r")
    case (Inl e)
    then show ?thesis by (cases e) simp_all
  next
    case (Inr raw)
    note g = this
    show ?thesis
    proof (cases "decoded r")
      case (Inl e)
      then show ?thesis using g by simp
    next
      case (Inr h)
      obtain evs fl where hi: "handle_item r h = (evs, fl)" by (cases "handle_item r h")
      have c: "count_list evs (Acknowledge h') \<le> (if h' = h then 1 else 0)"
        using handle_item_ack_count [of r h h'] hi by simp
      show ?thesis
      proof (cases fl)
        case Continue
        then show ?thesis using g Inr hi c Cons.IH by (auto split: if_splits)
      next
        case Break
        then show ?thesis using g Inr hi c by (auto split: if_splits)
      next
        case (Raise e)
        then show ?thesis using g Inr hi c by (auto split: if_splits)
      qed
    qed
  qed
qed


text \<open>What a pass that acknowledges has recorded.\<close>

lemma handle_item_ack_path:
  assumes "Acknowledge h' \<in> set (fst (handle_item r h))"
  shows "h' = h"
    and "snd (try_suite r h) = None \<Longrightarrow>
      \<exists>tokens tree counter. fst (handle_item r h)
         = [Add_parsed_source h tokens tree, Insert_count counter, Acknowledge h]"
    and "snd (try_suite r h) = Some ParseError \<Longrightarrow>
      fst (handle_item r h) = fst (try_suite r h) @ [Set_failure h, Acknowledge h]"
proof -
  obtain evs x where t: "try_suite r h = (evs, x)" by (cases "try_suite r h")
  have n: "Acknowledge h' \<notin> set evs"
    using try_suite_no_ack [of h' r h] t by simp
  show "h' = h"
  proof (cases x)
    case None
    then show ?thesis using t n assms by (auto simp: handle_item_success split: option.splits)
  next
    case (Some e)
    consider "e = KeyboardInterrupt" | "e = ParseError"
      | "e \<noteq> KeyboardInterrupt \<and> e \<noteq> ParseError" by blast
    then show ?thesis
    proof cases
      case 1
      then show ?thesis using t n Some assms
        by (auto simp: handle_item_interrupted split: option.splits)
    next
      case 2
      then show ?thesis using t n Some assms
        by (auto simp: handle_item_syntax_error split: option.splits)
    next
      case 3
      then show ?thesis using t n Some assms
        by (auto simp: handle_item_fault split: option.splits)
    qed
  qed
  show "\<exists>tokens tree counter. fst (handle_item r h)
         = [Add_parsed_source h tokens tree, Insert_count counter, Acknowledge h]"
    if "snd (try_suite r h) = None"
    using that t n assms try_suite_success [of r h]
    by (auto simp: handle_item_success split: option.splits)
  show "fst (handle_item r h) = fst (try_suite r h) @ [Set_failure h, Acknowledge h]"
    if "snd (try_suite r h) = Some ParseError"
    using that t n assms by (auto simp: handle_item_syntax_error split: option.splits)
qed

text \<open>
  Claim C3. In every pass of the loop the pulled item is acknowledged at most once, and
  over the whole loop an item is acknowledged at most as often as it was pulled. An
  acknowledgment is always of the item of that pass; when the suite ran to its end
  (success path) the pass recorded exactly the parse result, the counts and then the
  acknowledgment, and when the suite ended with ParseError (syntax-error path) it
  recorded the failure marker and then the acknowledgment: persistence completes before
  the acknowledgment is issued.
\<close>

theorem acknowledge_once_after_persistence:
  "count_list (fst (handle_item r h)) (Acknowledge h') \<le> 1
   \<and> (Acknowledge h' \<in> set (fst (handle_item r h)) \<longrightarrow>
        h' = h
        \<and> (snd (try_suite r h) = None \<longrightarrow>
             (\<exists>tokens tree counter. fst (handle_item r h)
                = [Add_parsed_source h tokens tree, Insert_count counter, Acknowledge h]))
        \<and> (snd (try_suite r h) = Some ParseError \<longrightarrow>
             fst (handle_item r h) = fst (try_suite r h) @ [Set_failure h, Acknowledge h]))
   \<and> count_list (fst (main rounds)) (Acknowledge h') \<le> count_list (dequeued rounds) h'"
proof (intro conjI impI)
  show "count_list (fst (handle_item r h)) (Acknowledge h') \<le> 1"
    using handle_item_ack_count [of r h h'] by (simp split: if_splits)
  show "count_list (fst (main rounds)) (Acknowledge h') \<le> count_list (dequeued rounds) h'"
    by (rule main_ack_count)
next
  assume a: "Acknowledge h' \<in> set (fst (handle_item r h))"
  show "h' = h" using a by (rule handle_item_ack_path(1))
  show "\<exists>tokens tree counter. fst (handle_item r h)
      = [Add_parsed_source h tokens tree, Insert_count counter, Acknowledge h]"
    if "snd (try_suite r h) = None"
    using a that by (rule handle_item_ack_path(2))
  show "fst (handle_item r h) = fst (try_suite r h) @ [Set_failure h, Acknowledge h]"
    if "snd (try_suite r h) = Some ParseError"
    using a that by (rule handle_item_ack_path(3))
qed

theorem acknowledge_once_after_persistence_witness:
  "fst (handle_item pass_ok (lit ''0a1b''))
     = [Add_parsed_source (lit ''0a1b'') void0_tokens ''Program'', Insert_count [],
        Acknowledge (lit ''0a1b'')]
   \<and> fst (handle_item pass_syntax_error (lit ''2c3d''))
     = [Set_failure (lit ''2c3d''), Acknowledge (lit ''2c3d'')]
   \<and> count_list (fst (main [pass_ok, pass_syntax_error, pass_ok])) (Acknowledge (lit ''0a1b'')) \<le> 2
   \<and> dequeued [pass_ok, pass_syntax_error, pass_ok] = [lit ''0a1b'', lit ''2c3d'', lit ''0a1b'']"
proof -
  have d: "dequeued [pass_ok, pass_syntax_error, pass_ok]
      = [lit ''0a1b'', lit ''2c3d'', lit ''0a1b'']"
    by (simp add: pass_pulled handle_item_pass_ok handle_item_pass_syntax_error)
  show ?thesis
    using acknowledge_once_after_persistence [of pass_ok "lit ''0a1b''" "lit ''0a1b''"
        "[pass_ok, pass_syntax_error, pass_ok]"]
      acknowledge_once_after_persistence [of pass_syntax_error "lit ''2c3d''" "lit ''2c3d''" "[]"]
      d
    by (simp add: pass_pulled handle_item_pass_ok handle_item_pass_syntax_error
        try_suite_pass_ok try_suite_pass_syntax_error lit_def)
qed


text \<open>
  The guarded path. When the item was pulled and KeyboardInterrupt is raised inside the
  suite of the \<open>try\<close> statement (while the source is fetched, parsed, persisted or
  its codepoints are merged) and the push to the error channel completes, that pass
  records the push after whatever the suite had persisted, acknowledges nothing, and
  the loop is left by \<open>break\<close>.
\<close>

lemma interrupt_in_try_suite:
  assumes "got r = Inr raw" and "decoded r = Inr h"
    and "snd (try_suite r h) = Some KeyboardInterrupt" and "aborted r = None"
  shows "handle_item r h = (fst (try_suite r h) @ [Abort h], Break)"
    and "main (r # rounds) = (fst (try_suite r h) @ [Abort h], Stopped)"
    and "Acknowledge h \<notin> set (fst (handle_item r h))"
proof -
  obtain evs where t: "try_suite r h = (evs, Some KeyboardInterrupt)"
    using assms(3) by (cases "try_suite r h") simp
  show hi: "handle_item r h = (fst (try_suite r h) @ [Abort h], Break)"
    using handle_item_interrupted [OF t] assms(4) t by simp
  show "main (r # rounds) = (fst (try_suite r h) @ [Abort h], Stopped)"
    using assms(1,2) hi by simp
  show "Acknowledge h \<notin> set (fst (handle_item r h))"
    using try_suite_no_ack [of h r h] hi by simp
qed

lemma interrupt_in_try_suite_example:
  "main [pass_ok\<lparr>counted := Some KeyboardInterrupt\<rparr>, pass_syntax_error]
     = ([Add_parsed_source (lit ''0a1b'') void0_tokens ''Program'', Abort (lit ''0a1b'')], Stopped)
   \<and> main [pass_ok\<lparr>source_code := Inl KeyboardInterrupt\<rparr>, pass_syntax_error]
     = ([Abort (lit ''0a1b'')], Stopped)"
proof -
  have 1: "try_suite (pass_ok\<lparr>counted := Some KeyboardInterrupt\<rparr>) (lit ''0a1b'')
      = ([Add_parsed_source (lit ''0a1b'') void0_tokens ''Program''], Some KeyboardInterrupt)"
    by (simp add: try_suite_def pass_ok_def parse_js_def node_def count_void0)
  have 2: "try_suite (pass_ok\<lparr>source_code := Inl KeyboardInterrupt\<rparr>) (lit ''0a1b'')
      = ([], Some KeyboardInterrupt)"
    by (simp add: try_suite_def pass_ok_def)
  show ?thesis
    using interrupt_in_try_suite(2) [of "pass_ok\<lparr>counted := Some KeyboardInterrupt\<rparr>"
        "lit ''0a1b''" "lit ''0a1b''" "[pass_syntax_error]"]
      interrupt_in_try_suite(2) [of "pass_ok\<lparr>source_code := Inl KeyboardInterrupt\<rparr>"
        "lit ''0a1b''" "lit ''0a1b''" "[pass_syntax_error]"]
    by (simp add: 1 2) (simp add: pass_ok_def)
qed

text \<open>
  Claim C1. For every dequeued work item, a cancellation signal (KeyboardInterrupt)
  arriving at any point after the dequeue and before the acknowledgment must leave the
  item's identifier in the error channel or the item acknowledged with its results
  persisted, never absent from both. The code breaks this outside the suite of the
  \<open>try\<close> statement. In the first pass below the parser reports a syntax error and
  the signal is raised while the handler of ParseError records the failure
  (\<open>db.set_failure\<close>); in the second everything is persisted and the signal is raised
  while the \<open>else\<close> clause acknowledges (\<open>worker.acknowledge\<close>). Nothing catches
  either: the item was pulled, the loop ends with KeyboardInterrupt, and the recorded
  events hold neither a push to the error channel nor an acknowledgment.
\<close>

theorem interrupt_outside_try_suite_loses_item:
  "dequeued [pass_syntax_error\<lparr>failed := Some KeyboardInterrupt\<rparr>] = [lit ''2c3d'']
   \<and> main [pass_syntax_error\<lparr>failed := Some KeyboardInterrupt\<rparr>]
       = ([], Crashed KeyboardInterrupt)
   \<and> dequeued [pass_ok\<lparr>acknowledged := Some KeyboardInterrupt\<rparr>] = [lit ''0a1b'']
   \<and> main [pass_ok\<lparr>acknowledged := Some KeyboardInterrupt\<rparr>]
       = ([Add_parsed_source (lit ''0a1b'') void0_tokens ''Program'', Insert_count []],
          Crashed KeyboardInterrupt)"
  by (simp add: pass_syntax_error_def pass_ok_def handle_item_def call_def try_suite_def
      parse_js_def node_def count_void0 most_common_def)

end
